theory Spec2Isabelle
  imports Main "HOL-Library.Sublist" "HOL-Library.Multiset"
begin

section \<open>Strings as Python sees them\<close>

text \<open>
  A Python \<open>str\<close> is modelled as a list of code points below 256 (one \<open>char\<close> each).
  \<open>str.lower()\<close> on that range maps A-Z, and the Latin-1 capitals 192-214 and 216-222,
  to the code point 32 above; every other code point is left alone.
\<close>

definition char_lower :: "char \<Rightarrow> char" where
  "char_lower c =
     (let n = (of_char c :: nat)
      in if (65 \<le> n \<and> n \<le> 90) \<or> (192 \<le> n \<and> n \<le> 214) \<or> (216 \<le> n \<and> n \<le> 222)
         then char_of (n + 32) else c)"

definition lower :: "string \<Rightarrow> string" where
  "lower s = map char_lower s"

text \<open>\<open>w in s\<close> on strings: \<open>w\<close> occurs as a contiguous substring of \<open>s\<close>.\<close>

fun occurs_in :: "string \<Rightarrow> string \<Rightarrow> bool" where
  "occurs_in w [] = (w = [])"
| "occurs_in w (c # cs) = (prefix w (c # cs) \<or> occurs_in w cs)"

text \<open>\<open>any(word in text for word in words)\<close>.\<close>

definition any_in :: "string list \<Rightarrow> string \<Rightarrow> bool" where
  "any_in ws t = list_ex (\<lambda>w. occurs_in w t) ws"

text \<open>\<open>a or b\<close> on strings: \<open>a\<close> unless it is empty.\<close>

definition py_or :: "string \<Rightarrow> string \<Rightarrow> string" where
  "py_or a b = (if a \<noteq> [] then a else b)"

section \<open>The classifier's result\<close>

text \<open>
  \<open>extract_movie_info\<close> returns a dict with the five keys of \<open>movie_info\<close>;
  \<open>enhanced_extract_movie_info\<close> returns the same keys and \<open>production_house\<close>.
\<close>

record movie_info =
  movie_name :: string
  actor_name :: string
  director_name :: string
  update_type :: string
  language :: string

record enhanced_movie_info = movie_info +
  production_house :: string

section \<open>\<open>enhanced_extract_movie_info\<close>: entities, update type, language\<close>

definition telugu_actors :: "(string \<times> string) list" where
  "telugu_actors =
     [(''allu arjun'', ''Allu Arjun''),
      (''prabhas'', ''Prabhas''),
      (''mahesh babu'', ''Mahesh Babu''),
      (''jr ntr'', ''Jr. NTR''),
      (''ntr'', ''Jr. NTR''),
      (''ram charan'', ''Ram Charan''),
      (''chiranjeevi'', ''Chiranjeevi''),
      (''balakrishna'', ''Balakrishna''),
      (''vijay deverakonda'', ''Vijay Deverakonda''),
      (''nani'', ''Nani''),
      (''ravi teja'', ''Ravi Teja''),
      (''nithiin'', ''Nithiin''),
      (''sharwanand'', ''Sharwanand'')]"

definition directors :: "(string \<times> string) list" where
  "directors =
     [(''rajamouli'', ''S.S. Rajamouli''),
      (''puri jagannadh'', ''Puri Jagannadh''),
      (''trivikram'', ''Trivikram Srinivas''),
      (''koratala siva'', ''Koratala Siva''),
      (''sukumar'', ''Sukumar''),
      (''vamshi paidipally'', ''Vamshi Paidipally'')]"

definition production_houses :: "(string \<times> string) list" where
  "production_houses =
     [(''geetha arts'', ''Geetha Arts''),
      (''mythri movie makers'', ''Mythri Movie Makers''),
      (''people media factory'', ''People Media Factory''),
      (''sri venkateswara creations'', ''Sri Venkateswara Creations''),
      (''vyjayanthi movies'', ''Vyjayanthi Movies''),
      (''dvv entertainments'', ''DVV Entertainments'')]"

text \<open>
  \<open>for key, name in table.items(): if key in text_lower: info[field] = name; break\<close>.
  A dict literal iterates in the order its keys are written; \<open>cur\<close> is the value the
  field has before the loop.
\<close>

fun entity_loop :: "(string \<times> string) list \<Rightarrow> string \<Rightarrow> string \<Rightarrow> string" where
  "entity_loop [] text_lower cur = cur"
| "entity_loop ((key, name) # rest) text_lower cur =
     (if occurs_in key text_lower then name else entity_loop rest text_lower cur)"

text \<open>The \<open>if\<close>/\<open>elif\<close> chain of lines 1027-1040.\<close>

definition enhanced_update_type :: "string \<Rightarrow> string" where
  "enhanced_update_type text_lower =
     (if any_in [''trailer'', ''official trailer''] text_lower then ''trailer''
      else if any_in [''teaser'', ''glimpse'', ''sneak peek''] text_lower then ''teaser''
      else if any_in [''poster'', ''first look'', ''character poster''] text_lower then ''poster''
      else if any_in [''release date'', ''announcement'', ''official''] text_lower then ''announcement''
      else if any_in [''box office'', ''collection'', ''earnings''] text_lower then ''box_office''
      else if any_in [''review'', ''rating''] text_lower then ''review''
      else ''news'')"

text \<open>The chain of lines 1043-1052; it has no \<open>else\<close>, so \<open>cur\<close> survives when nothing matches.\<close>

definition enhanced_language :: "string \<Rightarrow> string \<Rightarrow> string" where
  "enhanced_language text_lower cur =
     (if any_in [''telugu'', ''tollywood'', ''andhra'', ''telangana''] text_lower then ''telugu''
      else if any_in [''tamil'', ''kollywood'', ''tamilnadu''] text_lower then ''tamil''
      else if any_in [''hindi'', ''bollywood'', ''mumbai''] text_lower then ''hindi''
      else if any_in [''malayalam'', ''mollywood'', ''kerala''] text_lower then ''malayalam''
      else if any_in [''kannada'', ''sandalwood'', ''karnataka''] text_lower then ''kannada''
      else cur)"

section \<open>The regular expressions of the movie-name rules\<close>

text \<open>
  The four patterns handed to \<open>re.findall(pattern, text, re.IGNORECASE)\<close> are built from
  literal text, a greedy \<open>+\<close> over a character class, one capturing group, sequencing and
  alternation. \<open>rmatch r s\<close> lists the ways \<open>r\<close> matches at the start of \<open>s\<close> in the
  order a backtracking matcher tries them (longest repetition first, left alternative
  first); each entry is the text of the group, when the group took part, and the rest
  of the input after the match.
\<close>

datatype regex =
    Lit string
  | Plus "char \<Rightarrow> bool"
  | Group regex
  | Seq regex regex
  | Alt regex regex

text \<open>
  The classes \<open>\w\<close> and \<open>\s\<close> of a \<open>str\<close> pattern on the code points below 256:
  \<open>\w\<close> is \<open>[0-9A-Za-z_]\<close> and the Latin-1 letters and numeric signs, \<open>\s\<close> is
  the ASCII white space, the separators 28-31, NEL and the no-break space.
\<close>

definition word_char :: "char \<Rightarrow> bool" where
  "word_char c =
     (let n = (of_char c :: nat)
      in (48 \<le> n \<and> n \<le> 57) \<or> (65 \<le> n \<and> n \<le> 90) \<or> n = 95 \<or> (97 \<le> n \<and> n \<le> 122)
         \<or> n = 170 \<or> n = 178 \<or> n = 179 \<or> n = 181 \<or> n = 185 \<or> n = 186
         \<or> (188 \<le> n \<and> n \<le> 190) \<or> (192 \<le> n \<and> n \<le> 214)
         \<or> (216 \<le> n \<and> n \<le> 246) \<or> 248 \<le> n)"

definition space_char :: "char \<Rightarrow> bool" where
  "space_char c =
     (let n = (of_char c :: nat)
      in (9 \<le> n \<and> n \<le> 13) \<or> (28 \<le> n \<and> n \<le> 32) \<or> n = 133 \<or> n = 160)"

definition not_char :: "char \<Rightarrow> char \<Rightarrow> bool" where
  "not_char q c = (c \<noteq> q)"

definition first_group :: "string option \<Rightarrow> string option \<Rightarrow> string option" where
  "first_group a b = (case a of Some g \<Rightarrow> Some g | None \<Rightarrow> b)"

fun rmatch :: "regex \<Rightarrow> string \<Rightarrow> (string option \<times> string) list" where
  "rmatch (Lit l) s =
     (if length l \<le> length s \<and> lower (take (length l) s) = lower l
      then [(None, drop (length l) s)] else [])"
| "rmatch (Plus cls) s =
     map (\<lambda>k. (None, drop k s)) (rev [1 ..< Suc (length (takeWhile cls s))])"
| "rmatch (Group r) s =
     map (\<lambda>(g, rest). (Some (take (length s - length rest) s), rest)) (rmatch r s)"
| "rmatch (Seq a b) s =
     concat (map (\<lambda>(ga, ra). map (\<lambda>(gb, rb). (first_group ga gb, rb)) (rmatch b ra))
                 (rmatch a s))"
| "rmatch (Alt a b) s = rmatch a s @ rmatch b s"

text \<open>
  \<open>search r s\<close>: the leftmost match, and at that position the first one the matcher
  finds. The result is the matched text, the group and the input after the match.
\<close>

fun search :: "regex \<Rightarrow> string \<Rightarrow> (string \<times> string option \<times> string) option" where
  "search r [] =
     (case rmatch r [] of [] \<Rightarrow> None | (g, rest) # _ \<Rightarrow> Some ([], g, rest))"
| "search r (c # cs) =
     (case rmatch r (c # cs) of
        [] \<Rightarrow> search r cs
      | (g, rest) # _ \<Rightarrow> Some (take (length (c # cs) - length rest) (c # cs), g, rest))"

text \<open>
  \<open>re.findall\<close>: the successive non-overlapping matches, left to right; each contributes
  its group (the whole match for a pattern without a group). After a match that
  consumed input the scan resumes behind it; after an empty match at the very start it
  resumes one character on.
\<close>

function findall :: "regex \<Rightarrow> string \<Rightarrow> string list" where
  "findall r s =
     (case search r s of
        None \<Rightarrow> []
      | Some (matched, g, rest) \<Rightarrow>
          (case g of Some x \<Rightarrow> x | None \<Rightarrow> matched) #
          (if length rest < length s then findall r rest
           else if s = [] then []
           else findall r (tl s)))"
  by pat_completeness auto
termination
  by (relation "measure (\<lambda>(r, s). length s)") auto

declare findall.simps [simp del]

definition rule_keyword :: regex where
  "rule_keyword = Alt (Lit ''movie'') (Alt (Lit ''film'') (Alt (Lit ''trailer'') (Lit ''teaser'')))"

text \<open>
  \<open>#(\w+)(?:movie|film|trailer|teaser)\<close>, \<open>(\w+)\s+(?:movie|film|trailer|teaser)\<close>,
  a double-quoted and a single-quoted non-empty run.
\<close>

definition movie_patterns :: "regex list" where
  "movie_patterns =
     [Seq (Lit ''#'') (Seq (Group (Plus word_char)) rule_keyword),
      Seq (Group (Plus word_char)) (Seq (Plus space_char) rule_keyword),
      Seq (Lit [CHR 0x22]) (Seq (Group (Plus (not_char (CHR 0x22)))) (Lit [CHR 0x22])),
      Seq (Lit [CHR 0x27]) (Seq (Group (Plus (not_char (CHR 0x27)))) (Lit [CHR 0x27]))]"

text \<open>
  \<open>for pattern in movie_patterns: matches = re.findall(...); if matches:
  info['movie_name'] = matches[0]; break\<close>.
\<close>

fun movie_name_loop :: "regex list \<Rightarrow> string \<Rightarrow> string \<Rightarrow> string" where
  "movie_name_loop [] text cur = cur"
| "movie_name_loop (pattern # rest) text cur =
     (case findall pattern text of
        [] \<Rightarrow> movie_name_loop rest text cur
      | m # _ \<Rightarrow> m)"

definition enhanced_extract_movie_info :: "string \<Rightarrow> enhanced_movie_info" where
  "enhanced_extract_movie_info text =
     (let text_lower = lower text
      in \<lparr> movie_name = movie_name_loop movie_patterns text [],
           actor_name = entity_loop telugu_actors text_lower [],
           director_name = entity_loop directors text_lower [],
           update_type = enhanced_update_type text_lower,
           language = enhanced_language text_lower [],
           production_house = entity_loop production_houses text_lower [] \<rparr>)"

section \<open>\<open>extract_movie_info\<close>, the base classifier\<close>

text \<open>
  The function declares two lists of pattern strings and never uses them; they are kept
  here as the strings they are (\<open>CHR 0x5C\<close> is the backslash).
\<close>

definition base_movie_patterns :: "string list" where
  "base_movie_patterns =
     [''#('' @ CHR 0x5C # ''w+)(?:Movie|Film|Cinema)'',
      ''('' @ CHR 0x5C # ''w+)'' @ CHR 0x5C # ''s+(?:trailer|teaser|poster|first look)'',
      ''#('' @ CHR 0x5C # ''w+)(?:2|3|Chapter)'']"

definition base_actor_patterns :: "string list" where
  "base_actor_patterns =
     [''(?:@|#)?(alluarjun|prabhas|maheshbabu|ntr|ramcharan|chiranjeevi)'',
      ''(?:Allu Arjun|Prabhas|Mahesh Babu|Jr'' @ CHR 0x5C # ''.? NTR|Ram Charan|Chiranjeevi)'']"

definition extract_movie_info :: "string \<Rightarrow> movie_info" where
  "extract_movie_info text =
     (let info = \<lparr> movie_name = [], actor_name = [], director_name = [],
                   update_type = [], language = [] \<rparr>;
          movie_patterns = base_movie_patterns;
          actor_patterns = base_actor_patterns;
          info = info \<lparr> update_type :=
            (if any_in [''trailer'', ''official trailer''] (lower text) then ''trailer''
             else if any_in [''teaser'', ''glimpse''] (lower text) then ''teaser''
             else if any_in [''poster'', ''first look''] (lower text) then ''poster''
             else if any_in [''release'', ''announcement''] (lower text) then ''announcement''
             else ''news'') \<rparr>;
          info = info \<lparr> language :=
            (if any_in [''telugu'', ''tollywood''] (lower text) then ''telugu''
             else if any_in [''tamil'', ''kollywood''] (lower text) then ''tamil''
             else if any_in [''hindi'', ''bollywood''] (lower text) then ''hindi''
             else language info) \<rparr>
      in info)"

section \<open>The \<open>movie_updates\<close> table and the persistence gate\<close>

text \<open>
  One row of \<open>movie_updates\<close>. The text columns hold strings, \<open>created_at\<close> is the
  second \<open>CURRENT_TIMESTAMP\<close> gave at the insert. The table carries
  \<open>UNIQUE(platform, content_id)\<close>; \<open>sqlite_sequence\<close> is the largest rowid that
  \<open>AUTOINCREMENT\<close> has handed out.
\<close>

record row =
  row_id :: int
  row_platform :: string
  row_account_name :: string
  row_content_id :: string
  row_title :: string
  row_content :: string
  row_url :: string
  row_language :: string
  row_movie_name :: string
  row_actor_name :: string
  row_director_name :: string
  row_production_house :: string
  row_update_type :: string
  row_engagement_count :: int
  row_created_at :: int
  row_posted_to_telegram :: bool

record database =
  movie_updates :: "row list"
  sqlite_sequence :: int

text \<open>\<open>CREATE TABLE IF NOT EXISTS\<close>: an empty table on a new file, no change otherwise.\<close>

definition init_database :: "database option \<Rightarrow> database" where
  "init_database file =
     (case file of
        None \<Rightarrow> \<lparr> movie_updates = [], sqlite_sequence = 0 \<rparr>
      | Some db \<Rightarrow> db)"

definition row_key :: "row \<Rightarrow> string \<times> string" where
  "row_key r = (row_platform r, row_content_id r)"

definition key_stored :: "database \<Rightarrow> string \<Rightarrow> string \<Rightarrow> bool" where
  "key_stored db platform content_id =
     list_ex (\<lambda>r. row_platform r = platform \<and> row_content_id r = content_id) (movie_updates db)"

text \<open>
  A Python int bound to a statement parameter must fit a signed 64-bit integer;
  \<open>sqlite3\<close> raises \<open>OverflowError\<close> for any other, before the statement runs.
\<close>

definition sqlite_integer :: "int \<Rightarrow> bool" where
  "sqlite_integer v = (- (2 ^ 63) \<le> v \<and> v < 2 ^ 63)"

datatype error = AttributeError string | OverflowError | OperationalError string

text \<open>
  The rowid that \<open>AUTOINCREMENT\<close> allocates for the next insert: one more than the
  largest rowid handed out so far.
\<close>

definition next_rowid :: "database \<Rightarrow> int" where
  "next_rowid db = max (sqlite_sequence db) (foldr max (map row_id (movie_updates db)) 0) + 1"

text \<open>
  \<open>conn.execute('INSERT OR IGNORE INTO movie_updates (...) VALUES (...)', ...)\<close>
  followed by \<open>conn.commit()\<close>. An \<open>engagement_count\<close> outside the signed 64-bit
  range cannot be bound: \<open>OverflowError\<close>. Once every rowid has been handed out the
  statement fails with \<open>database or disk is full\<close>. Otherwise SQLite allocates the
  rowid and records it in \<open>sqlite_sequence\<close>, and then either drops the row because
  its key is already stored, or appends it with that rowid, the insert time and the
  column default \<open>FALSE\<close>. An error leaves nothing to commit.
\<close>

definition insert_or_ignore :: "database \<Rightarrow> int \<Rightarrow> row \<Rightarrow> error + database" where
  "insert_or_ignore db current_timestamp vals =
     (if \<not> sqlite_integer (row_engagement_count vals) then Inl OverflowError
      else if \<not> sqlite_integer (next_rowid db)
      then Inl (OperationalError ''database or disk is full'')
      else if key_stored db (row_platform vals) (row_content_id vals)
      then Inr (db \<lparr> sqlite_sequence := next_rowid db \<rparr>)
      else Inr \<lparr> movie_updates = movie_updates db @
                    [vals \<lparr> row_id := next_rowid db, row_created_at := current_timestamp,
                             row_posted_to_telegram := False \<rparr>],
                  sqlite_sequence = next_rowid db \<rparr>)"

text \<open>
  \<open>conn.lastrowid\<close>, where \<open>conn\<close> is the \<open>sqlite3.Connection\<close> that
  \<open>get_connection\<close> yields. \<open>lastrowid\<close> is an attribute of the cursor that
  \<open>conn.execute\<close> returns, and the code drops that cursor; the connection class has no
  such attribute, so the lookup raises \<open>AttributeError\<close>.
\<close>

definition connection_lastrowid :: "database \<Rightarrow> error + int" where
  "connection_lastrowid conn = Inl (AttributeError ''lastrowid'')"

text \<open>The keyword arguments a caller may pass; \<open>None\<close> is a keyword left out.\<close>

record kwargs =
  kw_language :: "string option"
  kw_movie_name :: "string option"
  kw_actor_name :: "string option"
  kw_director_name :: "string option"
  kw_production_house :: "string option"
  kw_update_type :: "string option"
  kw_engagement_count :: "int option"

text \<open>\<open>kwargs.get(key, default)\<close>.\<close>

definition kwargs_get :: "'a option \<Rightarrow> 'a \<Rightarrow> 'a" where
  "kwargs_get v dflt = (case v of Some x \<Rightarrow> x | None \<Rightarrow> dflt)"

text \<open>
  \<open>DatabaseManager.save_movie_update\<close>. An exception raised inside the \<open>try\<close> is
  logged and the function returns \<open>None\<close>: when the insert itself raises, the
  connection is closed with nothing committed and the database is as before; when the
  insert succeeds it is committed before \<open>conn.lastrowid\<close> is read. The result is
  the database after the call and the value returned.
\<close>

definition save_movie_update ::
  "database \<Rightarrow> int \<Rightarrow> string \<Rightarrow> string \<Rightarrow> string \<Rightarrow> string \<Rightarrow> string \<Rightarrow> string \<Rightarrow> kwargs
     \<Rightarrow> database \<times> int option" where
  "save_movie_update db current_timestamp platform account_name content_id title content url kwargs =
     (case insert_or_ignore db current_timestamp
            \<lparr> row_id = 0, row_platform = platform, row_account_name = account_name,
              row_content_id = content_id, row_title = title, row_content = content,
              row_url = url,
              row_language = kwargs_get (kw_language kwargs) [],
              row_movie_name = kwargs_get (kw_movie_name kwargs) [],
              row_actor_name = kwargs_get (kw_actor_name kwargs) [],
              row_director_name = kwargs_get (kw_director_name kwargs) [],
              row_production_house = kwargs_get (kw_production_house kwargs) [],
              row_update_type = kwargs_get (kw_update_type kwargs) [],
              row_engagement_count = kwargs_get (kw_engagement_count kwargs) 0,
              row_created_at = 0, row_posted_to_telegram = False \<rparr> of
        Inl e \<Rightarrow> (db, None)
      | Inr conn \<Rightarrow>
          (case connection_lastrowid conn of
             Inr rowid \<Rightarrow> (conn, Some rowid)
           | Inl e \<Rightarrow> (conn, None)))"

text \<open>One call of the gate with its arguments, and a sequence of such calls.\<close>

record save_call =
  call_timestamp :: int
  call_platform :: string
  call_account_name :: string
  call_content_id :: string
  call_title :: string
  call_content :: string
  call_url :: string
  call_kwargs :: kwargs

definition do_save :: "database \<Rightarrow> save_call \<Rightarrow> database \<times> int option" where
  "do_save db c =
     save_movie_update db (call_timestamp c) (call_platform c) (call_account_name c)
       (call_content_id c) (call_title c) (call_content c) (call_url c) (call_kwargs c)"

fun save_all :: "database \<Rightarrow> save_call list \<Rightarrow> database" where
  "save_all db [] = db"
| "save_all db (c # cs) = save_all (fst (do_save db c)) cs"

text \<open>The payload of a call as the row it asks to store (rowid and insert time apart).\<close>

definition same_payload :: "row \<Rightarrow> save_call \<Rightarrow> bool" where
  "same_payload r c =
     (row_platform r = call_platform c \<and> row_account_name r = call_account_name c \<and>
      row_content_id r = call_content_id c \<and> row_title r = call_title c \<and>
      row_content r = call_content c \<and> row_url r = call_url c \<and>
      row_language r = kwargs_get (kw_language (call_kwargs c)) [] \<and>
      row_movie_name r = kwargs_get (kw_movie_name (call_kwargs c)) [] \<and>
      row_actor_name r = kwargs_get (kw_actor_name (call_kwargs c)) [] \<and>
      row_director_name r = kwargs_get (kw_director_name (call_kwargs c)) [] \<and>
      row_production_house r = kwargs_get (kw_production_house (call_kwargs c)) [] \<and>
      row_update_type r = kwargs_get (kw_update_type (call_kwargs c)) [] \<and>
      row_engagement_count r = kwargs_get (kw_engagement_count (call_kwargs c)) 0 \<and>
      row_created_at r = call_timestamp c)"

definition rows_with_key :: "database \<Rightarrow> string \<Rightarrow> string \<Rightarrow> row list" where
  "rows_with_key db platform content_id =
     filter (\<lambda>r. row_platform r = platform \<and> row_content_id r = content_id) (movie_updates db)"

section \<open>The poller loops: what is done with one fetched item\<close>

text \<open>
  Times are microseconds since the epoch, the resolution of \<open>datetime\<close>. Every loop
  body reads the clock itself (\<open>datetime.now\<close>) and the database reads its own
  (\<open>CURRENT_TIMESTAMP\<close>); both readings are arguments. What a body does to the outside
  is returned as a list of events in the order they happen: a text handed to a
  classifier, a key handed to the gate, a message handed to
  \<open>send_telegram_notification\<close> with its photo.
\<close>

definition hours :: "int \<Rightarrow> int" where
  "hours n = n * 3600000000"

datatype msg_part = Emoji nat | Text string | Number int

datatype event =
    Classify string
  | Save string string
  | Telegram "msg_part list" "string option"

definition is_telegram :: "event \<Rightarrow> bool" where
  "is_telegram e = (case e of Telegram message photo \<Rightarrow> True | Classify text \<Rightarrow> False
                    | Save platform content_id \<Rightarrow> False)"

definition newline :: string where
  "newline = [CHR 0x0A]"

definition apostrophe :: string where
  "apostrophe = [CHR 0x27]"

text \<open>The columns of a \<open>social_accounts\<close> row that the loops read.\<close>

record account =
  acc_name :: string
  acc_username :: string
  acc_language :: string

text \<open>\<open>if update_id\<close>: \<open>None\<close> and \<open>0\<close> are false.\<close>

definition truthy :: "int option \<Rightarrow> bool" where
  "truthy v = (case v of None \<Rightarrow> False | Some n \<Rightarrow> n \<noteq> 0)"

subsection \<open>\<open>monitor_twitter\<close>\<close>

record metrics =
  like_count :: int

record tweet =
  tweet_id :: string
  tweet_text :: string
  tweet_created_at :: int
  public_metrics :: "metrics option"

text \<open>The condition of lines 476-479.\<close>

definition twitter_significant :: "int option \<Rightarrow> movie_info \<Rightarrow> tweet \<Rightarrow> bool" where
  "twitter_significant update_id info t =
     (truthy update_id \<and>
      (update_type info \<in> set [''trailer'', ''teaser'', ''poster''] \<or>
       (case public_metrics t of None \<Rightarrow> False | Some m \<Rightarrow> like_count m > 500)))"

text \<open>The arguments of the call of lines 461-473.\<close>

definition twitter_call :: "account \<Rightarrow> tweet \<Rightarrow> movie_info \<Rightarrow> int \<Rightarrow> save_call" where
  "twitter_call acc t info current_timestamp =
     \<lparr> call_timestamp = current_timestamp,
       call_platform = ''twitter'',
       call_account_name = acc_name acc,
       call_content_id = tweet_id t,
       call_title = ''Tweet by '' @ acc_name acc,
       call_content = tweet_text t,
       call_url = ''https://twitter.com/'' @ acc_username acc @ ''/status/'' @ tweet_id t,
       call_kwargs =
         \<lparr> kw_language = Some (py_or (language info) (acc_language acc)),
           kw_movie_name = Some (movie_name info),
           kw_actor_name = Some (actor_name info),
           kw_director_name = None,
           kw_production_house = None,
           kw_update_type = Some (update_type info),
           kw_engagement_count =
             Some (case public_metrics t of Some m \<Rightarrow> like_count m | None \<Rightarrow> 0) \<rparr> \<rparr>"

definition twitter_tweet ::
  "database \<Rightarrow> account \<Rightarrow> tweet \<Rightarrow> int \<Rightarrow> int \<Rightarrow> database \<times> event list" where
  "twitter_tweet db acc t now current_timestamp =
     (if tweet_created_at t < now - hours 24 then (db, [])
      else
        let info = extract_movie_info (tweet_text t);
            url = ''https://twitter.com/'' @ acc_username acc @ ''/status/'' @ tweet_id t;
            (db', update_id) = do_save db (twitter_call acc t info current_timestamp)
        in (db', [Classify (tweet_text t), Save ''twitter'' (tweet_id t)] @
                 (if twitter_significant update_id info t
                  then [Telegram
                          [Emoji 0x1F3AC,
                           Text ('' <b>'' @ acc_name acc @ ''</b>'' @ newline @ newline @
                                 take 300 (tweet_text t) @ ''...'' @ newline @ newline),
                           Emoji 0x1F517,
                           Text ('' <a href='' @ apostrophe @ url @ apostrophe @
                                 ''>View Tweet</a>'')]
                          None]
                  else [])))"

text \<open>
  \<open>for tweet in tweets.data\<close>: each tweet comes with the two clock readings made
  while it is handled.
\<close>

fun twitter_tweets ::
  "database \<Rightarrow> account \<Rightarrow> (tweet \<times> int \<times> int) list \<Rightarrow> database \<times> event list" where
  "twitter_tweets db acc [] = (db, [])"
| "twitter_tweets db acc ((t, now, current_timestamp) # rest) =
     (let (db', evs) = twitter_tweet db acc t now current_timestamp;
          (db'', evs') = twitter_tweets db' acc rest
      in (db'', evs @ evs'))"

definition too_old :: "tweet \<times> int \<times> int \<Rightarrow> bool" where
  "too_old x = (case x of (t, now, current_timestamp) \<Rightarrow> tweet_created_at t < now - hours 24)"

subsection \<open>\<open>monitor_instagram\<close> and \<open>monitor_instagram_enhanced\<close>\<close>

record post =
  post_id :: string
  post_timestamp :: int
  caption :: "string option"
  media_type :: string
  media_url :: "string option"
  thumbnail_url :: "string option"
  permalink :: string
  post_like_count :: "int option"

definition photo_url :: "post \<Rightarrow> string option" where
  "photo_url p = (if media_type p = ''IMAGE'' then media_url p else thumbnail_url p)"

definition instagram_call :: "account \<Rightarrow> post \<Rightarrow> movie_info \<Rightarrow> int \<Rightarrow> save_call" where
  "instagram_call acc p info current_timestamp =
     \<lparr> call_timestamp = current_timestamp,
       call_platform = ''instagram'',
       call_account_name = acc_name acc,
       call_content_id = post_id p,
       call_title = ''Instagram post by '' @ acc_name acc,
       call_content = kwargs_get (caption p) [],
       call_url = permalink p,
       call_kwargs =
         \<lparr> kw_language = Some (py_or (language info) (acc_language acc)),
           kw_movie_name = Some (movie_name info),
           kw_actor_name = None,
           kw_director_name = None,
           kw_production_house = None,
           kw_update_type = Some (update_type info),
           kw_engagement_count = None \<rparr> \<rparr>"

definition instagram_post ::
  "database \<Rightarrow> account \<Rightarrow> post \<Rightarrow> int \<Rightarrow> int \<Rightarrow> database \<times> event list" where
  "instagram_post db acc p now current_timestamp =
     (if post_timestamp p < now - hours 24 then (db, [])
      else
        let cap = kwargs_get (caption p) [];
            info = extract_movie_info cap;
            (db', update_id) = do_save db (instagram_call acc p info current_timestamp)
        in (db', [Classify cap, Save ''instagram'' (post_id p)] @
                 (if truthy update_id \<and> update_type info \<in> set [''trailer'', ''teaser'', ''poster'']
                  then [Telegram
                          [Emoji 0x1F4F8,
                           Text ('' <b>'' @ acc_name acc @ ''</b>'' @ newline @ newline @
                                 take 200 cap @ ''...'' @ newline @ newline),
                           Emoji 0x1F517,
                           Text ('' <a href='' @ apostrophe @ permalink p @ apostrophe @
                                 ''>View Post</a>'')]
                          (photo_url p)]
                  else [])))"

text \<open>The condition of lines 1127-1130; \<open>post.get('like_count', 0)\<close> is \<open>0\<close> without the key.\<close>

definition instagram_significant :: "int option \<Rightarrow> enhanced_movie_info \<Rightarrow> post \<Rightarrow> bool" where
  "instagram_significant update_id info p =
     (truthy update_id \<and>
      (update_type info \<in> set [''trailer'', ''teaser'', ''poster'', ''announcement''] \<or>
       kwargs_get (post_like_count p) 0 > 1000))"

text \<open>The arguments of the call of lines 1110-1124.\<close>

definition instagram_enhanced_call ::
  "account \<Rightarrow> post \<Rightarrow> enhanced_movie_info \<Rightarrow> int \<Rightarrow> save_call" where
  "instagram_enhanced_call acc p info current_timestamp =
     \<lparr> call_timestamp = current_timestamp,
       call_platform = ''instagram'',
       call_account_name = acc_name acc,
       call_content_id = post_id p,
       call_title = ''Instagram post by '' @ acc_name acc,
       call_content = kwargs_get (caption p) [],
       call_url = permalink p,
       call_kwargs =
         \<lparr> kw_language = Some (py_or (language info) (acc_language acc)),
           kw_movie_name = Some (movie_name info),
           kw_actor_name = Some (actor_name info),
           kw_director_name = Some (director_name info),
           kw_production_house = Some (production_house info),
           kw_update_type = Some (update_type info),
           kw_engagement_count = Some (kwargs_get (post_like_count p) 0) \<rparr> \<rparr>"

definition instagram_enhanced_post ::
  "database \<Rightarrow> account \<Rightarrow> post \<Rightarrow> int \<Rightarrow> int \<Rightarrow> database \<times> event list" where
  "instagram_enhanced_post db acc p now current_timestamp =
     (if post_timestamp p < now - hours 12 then (db, [])
      else
        let cap = kwargs_get (caption p) []
        in if cap = [] then (db, [])
        else
          let info = enhanced_extract_movie_info cap;
              (db', update_id) =
                do_save db (instagram_enhanced_call acc p info current_timestamp)
          in (db', [Classify cap, Save ''instagram'' (post_id p)] @
                   (if instagram_significant update_id info p
                    then [Telegram
                            ([Emoji 0x1F4F8,
                              Text ('' <b>'' @ acc_name acc @ ''</b>'' @
                                    (if movie_name info \<noteq> [] then '' - '' @ movie_name info else []) @
                                    (if actor_name info \<noteq> [] then '' ('' @ actor_name info @ '')'' else []) @
                                    newline @ newline @ take 250 cap @ ''...'')] @
                             (if truthy (post_like_count p)
                              then [Text newline, Emoji 0x2764, Emoji 0xFE0F, Text '' '',
                                    Number (kwargs_get (post_like_count p) 0), Text '' likes'']
                              else []) @
                             [Text (newline @ newline), Emoji 0x1F517,
                              Text ('' <a href='' @ apostrophe @ permalink p @ apostrophe @
                                    ''>View Post</a>'')])
                            (photo_url p)]
                    else [])))"

subsection \<open>\<open>monitor_youtube\<close>, the searches of \<open>monitor_youtube_enhanced\<close>, \<open>monitor_news_websites\<close>\<close>

record video =
  video_id :: string
  video_title :: string
  video_description :: string
  channel_title :: string

definition youtube_call :: "video \<Rightarrow> movie_info \<Rightarrow> int \<Rightarrow> save_call" where
  "youtube_call v info current_timestamp =
     \<lparr> call_timestamp = current_timestamp,
       call_platform = ''youtube'',
       call_account_name = channel_title v,
       call_content_id = video_id v,
       call_title = video_title v,
       call_content = video_description v,
       call_url = ''https://www.youtube.com/watch?v='' @ video_id v,
       call_kwargs =
         \<lparr> kw_language = Some (language info),
           kw_movie_name = Some (movie_name info),
           kw_actor_name = None,
           kw_director_name = None,
           kw_production_house = None,
           kw_update_type = Some (update_type info),
           kw_engagement_count = None \<rparr> \<rparr>"

definition youtube_item :: "database \<Rightarrow> video \<Rightarrow> int \<Rightarrow> database \<times> event list" where
  "youtube_item db v current_timestamp =
     (let info = extract_movie_info (video_title v @ '' '' @ video_description v);
          url = ''https://www.youtube.com/watch?v='' @ video_id v;
          (db', update_id) = do_save db (youtube_call v info current_timestamp)
      in (db', [Classify (video_title v @ '' '' @ video_description v),
                Save ''youtube'' (video_id v)] @
               (if truthy update_id \<and> update_type info \<in> set [''trailer'', ''teaser'']
                then [Telegram
                        [Emoji 0x1F3A5,
                         Text ('' <b>YouTube - '' @ channel_title v @ ''</b>'' @ newline @ newline @
                               ''<b>'' @ video_title v @ ''</b>'' @ newline @ newline),
                         Emoji 0x1F517,
                         Text ('' <a href='' @ apostrophe @ url @ apostrophe @
                               ''>Watch Video</a>'')]
                        None]
                else [])))"

text \<open>The arguments of the call of lines 1294-1305; no fallback language is given.\<close>

definition youtube_enhanced_search_call ::
  "video \<Rightarrow> enhanced_movie_info \<Rightarrow> int \<Rightarrow> save_call" where
  "youtube_enhanced_search_call v info current_timestamp =
     \<lparr> call_timestamp = current_timestamp,
       call_platform = ''youtube'',
       call_account_name = channel_title v,
       call_content_id = video_id v,
       call_title = video_title v,
       call_content = video_description v,
       call_url = ''https://www.youtube.com/watch?v='' @ video_id v,
       call_kwargs =
         \<lparr> kw_language = Some (language info),
           kw_movie_name = Some (movie_name info),
           kw_actor_name = Some (actor_name info),
           kw_director_name = None,
           kw_production_house = None,
           kw_update_type = Some (update_type info),
           kw_engagement_count = None \<rparr> \<rparr>"

definition youtube_enhanced_search_item ::
  "database \<Rightarrow> video \<Rightarrow> int \<Rightarrow> database \<times> event list" where
  "youtube_enhanced_search_item db v current_timestamp =
     (let info = enhanced_extract_movie_info (video_title v @ '' '' @ video_description v);
          (db', update_id) = do_save db (youtube_enhanced_search_call v info current_timestamp)
      in (db', [Classify (video_title v @ '' '' @ video_description v),
                Save ''youtube'' (video_id v)]))"

record article =
  article_title :: string
  article_description :: "string option"
  article_url :: string

text \<open>\<open>url.split('/')[-1]\<close>: what follows the last slash, the whole string without one.\<close>

definition last_segment :: "string \<Rightarrow> string" where
  "last_segment url = rev (takeWhile (\<lambda>c. c \<noteq> CHR ''/'') (rev url))"

definition news_call :: "string \<Rightarrow> article \<Rightarrow> movie_info \<Rightarrow> int \<Rightarrow> save_call" where
  "news_call source a info current_timestamp =
     \<lparr> call_timestamp = current_timestamp,
       call_platform = ''news'',
       call_account_name = source,
       call_content_id = last_segment (article_url a),
       call_title = article_title a,
       call_content = kwargs_get (article_description a) [],
       call_url = article_url a,
       call_kwargs =
         \<lparr> kw_language = Some (language info),
           kw_movie_name = Some (movie_name info),
           kw_actor_name = None,
           kw_director_name = None,
           kw_production_house = None,
           kw_update_type = Some (update_type info),
           kw_engagement_count = None \<rparr> \<rparr>"

definition news_article :: "database \<Rightarrow> string \<Rightarrow> article \<Rightarrow> int \<Rightarrow> database \<times> event list" where
  "news_article db source a current_timestamp =
     (let description = kwargs_get (article_description a) [];
          content = article_title a @ '' '' @ description;
          info = extract_movie_info content;
          (db', update_id) = do_save db (news_call source a info current_timestamp)
      in (db', [Classify content, Save ''news'' (last_segment (article_url a))]))"

section \<open>The read accessor \<open>get_updates\<close>\<close>







section \<open>The classifier's cascades in the words of the specification\<close>

text \<open>
  A priority cascade is an ordered list of keyword sets with their labels: the first
  set with a keyword in the text gives the label, and the default is used when no set
  has one.
\<close>

fun first_matching_set :: "(string list \<times> string) list \<Rightarrow> string \<Rightarrow> string \<Rightarrow> string" where
  "first_matching_set [] dflt t = dflt"
| "first_matching_set ((keywords, label) # rest) dflt t =
     (if any_in keywords t then label else first_matching_set rest dflt t)"

definition update_type_priority :: "(string list \<times> string) list" where
  "update_type_priority =
     [([''trailer'', ''official trailer''], ''trailer''),
      ([''teaser'', ''glimpse'', ''sneak peek''], ''teaser''),
      ([''poster'', ''first look'', ''character poster''], ''poster''),
      ([''release date'', ''announcement'', ''official''], ''announcement''),
      ([''box office'', ''collection'', ''earnings''], ''box_office''),
      ([''review'', ''rating''], ''review'')]"

definition language_priority :: "(string list \<times> string) list" where
  "language_priority =
     [([''telugu'', ''tollywood'', ''andhra'', ''telangana''], ''telugu''),
      ([''tamil'', ''kollywood'', ''tamilnadu''], ''tamil''),
      ([''hindi'', ''bollywood'', ''mumbai''], ''hindi''),
      ([''malayalam'', ''mollywood'', ''kerala''], ''malayalam''),
      ([''kannada'', ''sandalwood'', ''karnataka''], ''kannada'')]"

section \<open>Concrete inputs\<close>

definition scenario_text :: string where
  "scenario_text = ''Pushpa 2 official trailer out now! #PushpaMovie telugu blockbuster''"

definition example_account :: account where
  "example_account =
     \<lparr> acc_name = ''Geetha Arts'', acc_username = ''GeethaArts'', acc_language = ''telugu'' \<rparr>"

definition first_call :: save_call where
  "first_call =
     \<lparr> call_timestamp = 100, call_platform = ''twitter'', call_account_name = ''Geetha Arts'',
       call_content_id = ''1001'', call_title = ''Tweet by Geetha Arts'',
       call_content = ''first text'',
       call_url = ''https://twitter.com/GeethaArts/status/1001'',
       call_kwargs =
         \<lparr> kw_language = Some ''telugu'', kw_movie_name = None, kw_actor_name = None,
           kw_director_name = None, kw_production_house = None,
           kw_update_type = Some ''trailer'', kw_engagement_count = Some 10 \<rparr> \<rparr>"

definition second_call :: save_call where
  "second_call =
     \<lparr> call_timestamp = 200, call_platform = ''twitter'', call_account_name = ''Geetha Arts'',
       call_content_id = ''1001'', call_title = ''Tweet by Geetha Arts'',
       call_content = ''second text'',
       call_url = ''https://twitter.com/GeethaArts/status/1001'',
       call_kwargs =
         \<lparr> kw_language = Some ''tamil'', kw_movie_name = Some ''Other'', kw_actor_name = None,
           kw_director_name = None, kw_production_house = None,
           kw_update_type = Some ''news'', kw_engagement_count = Some 999 \<rparr> \<rparr>"

definition overflowing_call :: save_call where
  "overflowing_call =
     \<lparr> call_timestamp = 100, call_platform = ''twitter'', call_account_name = ''Geetha Arts'',
       call_content_id = ''1001'', call_title = ''Tweet by Geetha Arts'',
       call_content = ''first text'',
       call_url = ''https://twitter.com/GeethaArts/status/1001'',
       call_kwargs =
         \<lparr> kw_language = Some ''telugu'', kw_movie_name = None, kw_actor_name = None,
           kw_director_name = None, kw_production_house = None,
           kw_update_type = Some ''trailer'', kw_engagement_count = Some (2 ^ 63) \<rparr> \<rparr>"

definition trailer_tweet :: tweet where
  "trailer_tweet =
     \<lparr> tweet_id = ''1001'', tweet_text = ''#PushpaMovie official trailer with Allu Arjun'',
       tweet_created_at = 0, public_metrics = Some \<lparr> like_count = 0 \<rparr> \<rparr>"

definition announcement_post :: post where
  "announcement_post =
     \<lparr> post_id = ''p1'', post_timestamp = 0, caption = Some ''Release date announcement'',
       media_type = ''IMAGE'', media_url = None, thumbnail_url = None,
       permalink = ''https://www.instagram.com/p/p1'', post_like_count = Some 0 \<rparr>"

definition plain_video :: video where
  "plain_video =
     \<lparr> video_id = ''v1'', video_title = ''New song'', video_description = ''out now'',
       channel_title = ''Aditya Music'' \<rparr>"

definition example_article :: article where
  "example_article =
     \<lparr> article_title = ''Pushpa 2 trailer released'',
       article_description = Some ''Allu Arjun returns'',
       article_url = ''https://www.news18.com/movies/pushpa-2-trailer'' \<rparr>"





section \<open>The classifier\<close>

lemma entity_loop_first:
  "(\<exists>i<length table. occurs_in (fst (table ! i)) t \<and> (\<forall>j<i. \<not> occurs_in (fst (table ! j)) t)
        \<and> entity_loop table t cur = snd (table ! i))
   \<or> ((\<forall>j<length table. \<not> occurs_in (fst (table ! j)) t) \<and> entity_loop table t cur = cur)"
proof (induction table)
  case Nil
  show ?case by simp
next
  case (Cons e table)
  obtain k n where e: "e = (k, n)" by (cases e)
  show ?case
  proof (cases "occurs_in k t")
    case True
    then have "occurs_in (fst ((e # table) ! 0)) t \<and> (\<forall>j<0. \<not> occurs_in (fst ((e # table) ! j)) t)
        \<and> entity_loop (e # table) t cur = snd ((e # table) ! 0)"
      using e by simp
    then show ?thesis by blast
  next
    case False
    from Cons.IH show ?thesis
    proof
      assume "\<exists>i<length table. occurs_in (fst (table ! i)) t \<and> (\<forall>j<i. \<not> occurs_in (fst (table ! j)) t)
        \<and> entity_loop table t cur = snd (table ! i)"
      then obtain i where i: "i < length table" "occurs_in (fst (table ! i)) t"
        "\<forall>j<i. \<not> occurs_in (fst (table ! j)) t" "entity_loop table t cur = snd (table ! i)"
        by blast
      have "\<forall>j<Suc i. \<not> occurs_in (fst ((e # table) ! j)) t"
        using i(3) False e by (auto simp: nth_Cons split: nat.splits)
      moreover have "Suc i < length (e # table)" using i(1) by simp
      moreover have "occurs_in (fst ((e # table) ! Suc i)) t" using i(2) by simp
      moreover have "entity_loop (e # table) t cur = snd ((e # table) ! Suc i)"
        using i(4) False e by simp
      ultimately show ?thesis by blast
    next
      assume a: "(\<forall>j<length table. \<not> occurs_in (fst (table ! j)) t) \<and> entity_loop table t cur = cur"
      then have "\<forall>j<length (e # table). \<not> occurs_in (fst ((e # table) ! j)) t"
        using False e by (auto simp: nth_Cons split: nat.splits)
      moreover have "entity_loop (e # table) t cur = cur" using a False e by simp
      ultimately show ?thesis by blast
    qed
  qed
qed

lemma actor_with_ntr:
  assumes "occurs_in ''ntr'' t"
  shows "entity_loop telugu_actors t [] \<in> {''Allu Arjun'', ''Prabhas'', ''Mahesh Babu'', ''Jr. NTR''}"
    and "\<not> occurs_in ''allu arjun'' t \<Longrightarrow> \<not> occurs_in ''prabhas'' t \<Longrightarrow>
         \<not> occurs_in ''mahesh babu'' t \<Longrightarrow> entity_loop telugu_actors t [] = ''Jr. NTR''"
  using assms by (simp_all add: telugu_actors_def)

lemma scenario_lower:
  "lower scenario_text = ''pushpa 2 official trailer out now! #pushpamovie telugu blockbuster''"
  by code_simp

lemma scenario_hashtag_rule: "findall (movie_patterns ! 0) scenario_text = [''Pushpa'']"
  by code_simp

text \<open>
  C4. The update type is the label of the first keyword set, in the order trailer,
  teaser, poster, announcement, box_office, review, that has a keyword in the lowercased
  text, and news when none has; so a text with a trailer keyword and a box-office
  keyword is a trailer.
\<close>

theorem update_type_cascade:
  "update_type (enhanced_extract_movie_info text) =
     first_matching_set update_type_priority ''news'' (lower text)
   \<and> (any_in [''trailer'', ''official trailer''] (lower text) \<and>
      any_in [''box office'', ''collection'', ''earnings''] (lower text)
      \<longrightarrow> update_type (enhanced_extract_movie_info text) = ''trailer'')"
  by (simp add: enhanced_extract_movie_info_def enhanced_update_type_def
        update_type_priority_def Let_def)

theorem update_type_cascade_witness:
  "any_in [''trailer'', ''official trailer''] (lower ''Trailer breaks Box Office records'') \<and>
   any_in [''box office'', ''collection'', ''earnings''] (lower ''Trailer breaks Box Office records'') \<and>
   update_type (enhanced_extract_movie_info ''Trailer breaks Box Office records'') = ''trailer''"
proof -
  have h: "any_in [''trailer'', ''official trailer''] (lower ''Trailer breaks Box Office records'') \<and>
     any_in [''box office'', ''collection'', ''earnings''] (lower ''Trailer breaks Box Office records'')"
    by code_simp
  from update_type_cascade [of "''Trailer breaks Box Office records''"] h show ?thesis
    by blast
qed

text \<open>
  C6. Actor, director and production house are each the canonical name of the first
  entry of their table, in the order the table is written, whose alias occurs in the
  lowercased text, and empty when no alias occurs. A text with both "ntr" and
  "ram charan" never gets Ram Charan: it gets the name of an entry at or before "ntr",
  which is Jr. NTR unless one of the three earlier aliases occurs as well.
\<close>

theorem entity_first_match:
  "((\<exists>i<length telugu_actors.
        occurs_in (fst (telugu_actors ! i)) (lower text) \<and>
        (\<forall>j<i. \<not> occurs_in (fst (telugu_actors ! j)) (lower text)) \<and>
        actor_name (enhanced_extract_movie_info text) = snd (telugu_actors ! i))
     \<or> ((\<forall>j<length telugu_actors. \<not> occurs_in (fst (telugu_actors ! j)) (lower text)) \<and>
         actor_name (enhanced_extract_movie_info text) = []))
   \<and> ((\<exists>i<length directors.
        occurs_in (fst (directors ! i)) (lower text) \<and>
        (\<forall>j<i. \<not> occurs_in (fst (directors ! j)) (lower text)) \<and>
        director_name (enhanced_extract_movie_info text) = snd (directors ! i))
     \<or> ((\<forall>j<length directors. \<not> occurs_in (fst (directors ! j)) (lower text)) \<and>
         director_name (enhanced_extract_movie_info text) = []))
   \<and> ((\<exists>i<length production_houses.
        occurs_in (fst (production_houses ! i)) (lower text) \<and>
        (\<forall>j<i. \<not> occurs_in (fst (production_houses ! j)) (lower text)) \<and>
        production_house (enhanced_extract_movie_info text) = snd (production_houses ! i))
     \<or> ((\<forall>j<length production_houses. \<not> occurs_in (fst (production_houses ! j)) (lower text)) \<and>
         production_house (enhanced_extract_movie_info text) = []))
   \<and> (occurs_in ''ntr'' (lower text) \<and> occurs_in ''ram charan'' (lower text) \<longrightarrow>
        actor_name (enhanced_extract_movie_info text) \<noteq> ''Ram Charan'' \<and>
        actor_name (enhanced_extract_movie_info text)
          \<in> {''Allu Arjun'', ''Prabhas'', ''Mahesh Babu'', ''Jr. NTR''} \<and>
        (\<not> occurs_in ''allu arjun'' (lower text) \<and> \<not> occurs_in ''prabhas'' (lower text) \<and>
         \<not> occurs_in ''mahesh babu'' (lower text)
         \<longrightarrow> actor_name (enhanced_extract_movie_info text) = ''Jr. NTR''))"
proof -
  have names: "actor_name (enhanced_extract_movie_info text) = entity_loop telugu_actors (lower text) []"
    "director_name (enhanced_extract_movie_info text) = entity_loop directors (lower text) []"
    "production_house (enhanced_extract_movie_info text) = entity_loop production_houses (lower text) []"
    by (simp_all add: enhanced_extract_movie_info_def Let_def)
  have ntr: "occurs_in ''ntr'' (lower text) \<longrightarrow>
        entity_loop telugu_actors (lower text) [] \<noteq> ''Ram Charan'' \<and>
        entity_loop telugu_actors (lower text) []
          \<in> {''Allu Arjun'', ''Prabhas'', ''Mahesh Babu'', ''Jr. NTR''} \<and>
        (\<not> occurs_in ''allu arjun'' (lower text) \<and> \<not> occurs_in ''prabhas'' (lower text) \<and>
         \<not> occurs_in ''mahesh babu'' (lower text)
         \<longrightarrow> entity_loop telugu_actors (lower text) [] = ''Jr. NTR'')"
    using actor_with_ntr [of "lower text"] by auto
  show ?thesis
    unfolding names
    using entity_loop_first [of telugu_actors "lower text" "[]"]
      entity_loop_first [of directors "lower text" "[]"]
      entity_loop_first [of production_houses "lower text" "[]"] ntr
    by blast
qed

theorem entity_first_match_witness:
  "occurs_in ''ntr'' (lower ''Ram Charan and NTR in RRR'') \<and>
   occurs_in ''ram charan'' (lower ''Ram Charan and NTR in RRR'') \<and>
   \<not> occurs_in ''allu arjun'' (lower ''Ram Charan and NTR in RRR'') \<and>
   \<not> occurs_in ''prabhas'' (lower ''Ram Charan and NTR in RRR'') \<and>
   \<not> occurs_in ''mahesh babu'' (lower ''Ram Charan and NTR in RRR'') \<and>
   actor_name (enhanced_extract_movie_info ''Ram Charan and NTR in RRR'') = ''Jr. NTR''"
proof -
  have h: "occurs_in ''ntr'' (lower ''Ram Charan and NTR in RRR'') \<and>
     occurs_in ''ram charan'' (lower ''Ram Charan and NTR in RRR'') \<and>
     \<not> occurs_in ''allu arjun'' (lower ''Ram Charan and NTR in RRR'') \<and>
     \<not> occurs_in ''prabhas'' (lower ''Ram Charan and NTR in RRR'') \<and>
     \<not> occurs_in ''mahesh babu'' (lower ''Ram Charan and NTR in RRR'')"
    by code_simp
  from entity_first_match [of "''Ram Charan and NTR in RRR''"] h show ?thesis
    by blast
qed

text \<open>
  C7. The scenario text is classified as a trailer in Telugu with the movie name
  Pushpa; the name is the first match of the hashtag rule, the first of the rules.
\<close>

theorem scenario_pushpa:
  "update_type (enhanced_extract_movie_info scenario_text) = ''trailer'' \<and>
   language (enhanced_extract_movie_info scenario_text) = ''telugu'' \<and>
   movie_name (enhanced_extract_movie_info scenario_text) = ''Pushpa'' \<and>
   findall (movie_patterns ! 0) scenario_text = [''Pushpa'']"
proof -
  have first: "movie_patterns = (movie_patterns ! 0) # tl movie_patterns"
    by (simp add: movie_patterns_def)
  have "movie_name_loop movie_patterns scenario_text [] = ''Pushpa''"
    by (subst first) (simp add: scenario_hashtag_rule)
  moreover have "enhanced_update_type (lower scenario_text) = ''trailer''"
    unfolding scenario_lower by code_simp
  moreover have "enhanced_language (lower scenario_text) [] = ''telugu''"
    unfolding scenario_lower by code_simp
  ultimately show ?thesis
    by (simp add: enhanced_extract_movie_info_def Let_def scenario_hashtag_rule)
qed

section \<open>The persistence gate\<close>

lemma key_stored_iff:
  "key_stored db p c \<longleftrightarrow> (p, c) \<in> row_key ` set (movie_updates db)"
  by (auto simp: key_stored_def list_ex_iff row_key_def)

lemma save_returns_None: "snd (save_movie_update db ts p a c t co u kw) = None"
  by (simp add: save_movie_update_def connection_lastrowid_def split: sum.splits)

lemma save_rejected:
  assumes "\<not> (sqlite_integer (kwargs_get (kw_engagement_count kw) 0) \<and>
              sqlite_integer (next_rowid db))"
  shows "save_movie_update db ts p a c t co u kw = (db, None)"
  using assms by (auto simp: save_movie_update_def insert_or_ignore_def)

lemma save_stored_key:
  assumes "key_stored db p c"
  shows "movie_updates (fst (save_movie_update db ts p a c t co u kw)) = movie_updates db"
  using assms
  by (simp add: save_movie_update_def connection_lastrowid_def insert_or_ignore_def)

lemma save_fresh_key:
  assumes "\<not> key_stored db p c"
    and "sqlite_integer (kwargs_get (kw_engagement_count kw) 0)"
    and "sqlite_integer (next_rowid db)"
  shows "\<exists>r. movie_updates (fst (save_movie_update db ts p a c t co u kw)) = movie_updates db @ [r]
      \<and> row_platform r = p \<and> row_account_name r = a \<and> row_content_id r = c \<and> row_title r = t
      \<and> row_content r = co \<and> row_url r = u
      \<and> row_language r = kwargs_get (kw_language kw) []
      \<and> row_movie_name r = kwargs_get (kw_movie_name kw) []
      \<and> row_actor_name r = kwargs_get (kw_actor_name kw) []
      \<and> row_director_name r = kwargs_get (kw_director_name kw) []
      \<and> row_production_house r = kwargs_get (kw_production_house kw) []
      \<and> row_update_type r = kwargs_get (kw_update_type kw) []
      \<and> row_engagement_count r = kwargs_get (kw_engagement_count kw) 0
      \<and> row_created_at r = ts"
  using assms
  by (simp add: save_movie_update_def connection_lastrowid_def insert_or_ignore_def)

lemma do_save_snd: "snd (do_save db c) = None"
  by (simp add: do_save_def save_returns_None)

lemma do_save_rejected:
  assumes "\<not> (sqlite_integer (kwargs_get (kw_engagement_count (call_kwargs c)) 0) \<and>
              sqlite_integer (next_rowid db))"
  shows "do_save db c = (db, None)"
  using assms by (simp add: do_save_def save_rejected)

lemma do_save_stored:
  "key_stored db (call_platform c) (call_content_id c) \<Longrightarrow>
   movie_updates (fst (do_save db c)) = movie_updates db"
  by (simp add: do_save_def save_stored_key)

lemma do_save_fresh:
  assumes "\<not> key_stored db (call_platform c) (call_content_id c)"
    and "sqlite_integer (kwargs_get (kw_engagement_count (call_kwargs c)) 0)"
    and "sqlite_integer (next_rowid db)"
  shows "\<exists>r. movie_updates (fst (do_save db c)) = movie_updates db @ [r] \<and> same_payload r c"
  using save_fresh_key [OF assms] unfolding do_save_def same_payload_def by blast

lemma do_save_rows:
  "movie_updates (fst (do_save db c)) = movie_updates db
   \<or> (\<not> key_stored db (call_platform c) (call_content_id c)
      \<and> (\<exists>r. movie_updates (fst (do_save db c)) = movie_updates db @ [r] \<and> same_payload r c))"
proof (cases "sqlite_integer (kwargs_get (kw_engagement_count (call_kwargs c)) 0) \<and>
              sqlite_integer (next_rowid db)")
  case False
  then show ?thesis by (simp add: do_save_rejected)
next
  case True
  show ?thesis
  proof (cases "key_stored db (call_platform c) (call_content_id c)")
    case True
    then show ?thesis by (simp add: do_save_stored)
  next
    case False
    with do_save_fresh [OF False] True show ?thesis by blast
  qed
qed

lemma same_payload_key: "same_payload r c \<Longrightarrow> row_key r = (call_platform c, call_content_id c)"
  by (simp add: same_payload_def row_key_def)

lemma do_save_distinct:
  assumes "distinct (map row_key (movie_updates db))"
  shows "distinct (map row_key (movie_updates (fst (do_save db c))))"
proof -
  from do_save_rows [of db c] show ?thesis
  proof
    assume "movie_updates (fst (do_save db c)) = movie_updates db"
    then show ?thesis using assms by simp
  next
    assume "\<not> key_stored db (call_platform c) (call_content_id c)
      \<and> (\<exists>r. movie_updates (fst (do_save db c)) = movie_updates db @ [r] \<and> same_payload r c)"
    then obtain r where fresh: "\<not> key_stored db (call_platform c) (call_content_id c)"
      and r: "movie_updates (fst (do_save db c)) = movie_updates db @ [r]" "same_payload r c"
      by blast
    have "row_key r \<notin> row_key ` set (movie_updates db)"
      using fresh same_payload_key [OF r(2)] by (simp add: key_stored_iff)
    then show ?thesis using assms r(1) by simp
  qed
qed

lemma save_all_distinct:
  "distinct (map row_key (movie_updates db)) \<Longrightarrow>
   distinct (map row_key (movie_updates (save_all db cs)))"
  by (induction cs arbitrary: db) (simp_all add: do_save_distinct)

lemma rows_with_key_filter:
  "rows_with_key db p c = filter (\<lambda>r. row_key r = (p, c)) (movie_updates db)"
  by (simp add: rows_with_key_def row_key_def)

lemma distinct_all_equal:
  "distinct xs \<Longrightarrow> \<forall>x\<in>set xs. x = k \<Longrightarrow> length xs \<le> Suc 0"
  by (cases xs; cases "tl xs") auto

lemma distinct_rows_with_key:
  assumes "distinct (map row_key (movie_updates db))"
  shows "length (rows_with_key db p c) \<le> 1"
proof -
  have "distinct (map row_key (filter (\<lambda>r. row_key r = (p, c)) (movie_updates db)))"
    using assms by (rule distinct_map_filter)
  moreover have "\<forall>k \<in> set (map row_key (filter (\<lambda>r. row_key r = (p, c)) (movie_updates db))). k = (p, c)"
    by auto
  ultimately have "length (map row_key (filter (\<lambda>r. row_key r = (p, c)) (movie_updates db))) \<le> Suc 0"
    by (rule distinct_all_equal)
  then show ?thesis by (simp add: rows_with_key_filter)
qed

lemma do_save_keeps_rows:
  assumes "key_stored db p c"
  shows "rows_with_key (fst (do_save db call)) p c = rows_with_key db p c"
    and "key_stored (fst (do_save db call)) p c"
proof -
  from do_save_rows [of db call]
  have "rows_with_key (fst (do_save db call)) p c = rows_with_key db p c
      \<and> key_stored (fst (do_save db call)) p c"
  proof
    assume "movie_updates (fst (do_save db call)) = movie_updates db"
    then show ?thesis using assms by (simp add: rows_with_key_filter key_stored_iff)
  next
    assume "\<not> key_stored db (call_platform call) (call_content_id call)
      \<and> (\<exists>r. movie_updates (fst (do_save db call)) = movie_updates db @ [r] \<and> same_payload r call)"
    then obtain r where fresh: "\<not> key_stored db (call_platform call) (call_content_id call)"
      and r: "movie_updates (fst (do_save db call)) = movie_updates db @ [r]" "same_payload r call"
      by blast
    have "row_key r \<noteq> (p, c)" using fresh assms same_payload_key [OF r(2)] by auto
    then show ?thesis using r(1) assms by (simp add: rows_with_key_filter key_stored_iff)
  qed
  then show "rows_with_key (fst (do_save db call)) p c = rows_with_key db p c"
    and "key_stored (fst (do_save db call)) p c" by simp_all
qed

lemma save_all_keeps_rows:
  "key_stored db p c \<Longrightarrow> rows_with_key (save_all db cs) p c = rows_with_key db p c"
  by (induction cs arbitrary: db) (simp_all add: do_save_keeps_rows)

lemma first_save_wins:
  assumes "\<not> key_stored db (call_platform c1) (call_content_id c1)"
    and "sqlite_integer (kwargs_get (kw_engagement_count (call_kwargs c1)) 0)"
    and "sqlite_integer (next_rowid db)"
  shows "\<exists>r. rows_with_key (save_all db (c1 # cs)) (call_platform c1) (call_content_id c1) = [r]
           \<and> same_payload r c1"
proof -
  from do_save_fresh [OF assms] obtain r where
    r: "movie_updates (fst (do_save db c1)) = movie_updates db @ [r]" "same_payload r c1" by blast
  have none: "rows_with_key db (call_platform c1) (call_content_id c1) = []"
    using assms(1) by (force simp: rows_with_key_filter key_stored_iff filter_empty_conv)
  have one: "rows_with_key (fst (do_save db c1)) (call_platform c1) (call_content_id c1) = [r]"
    using r none same_payload_key [OF r(2)] by (simp add: rows_with_key_filter)
  have "key_stored (fst (do_save db c1)) (call_platform c1) (call_content_id c1)"
    using r same_payload_key [OF r(2)] by (simp add: key_stored_iff)
  then show ?thesis using one r(2) by (simp add: save_all_keeps_rows)
qed

lemma init_distinct: "distinct (map row_key (movie_updates (init_database None)))"
  by (simp add: init_database_def)

lemma init_fresh: "\<not> key_stored (init_database None) p c"
  by (simp add: init_database_def key_stored_def)

lemma init_next_rowid: "sqlite_integer (next_rowid (init_database None))"
  by (simp add: init_database_def next_rowid_def sqlite_integer_def)

lemma first_call_accepted:
  "sqlite_integer (kwargs_get (kw_engagement_count (call_kwargs first_call)) 0)"
  by (simp add: first_call_def kwargs_get_def sqlite_integer_def)

lemma first_call_stored:
  "key_stored (fst (do_save (init_database None) first_call)) ''twitter'' ''1001''"
  by (simp add: do_save_def save_movie_update_def insert_or_ignore_def init_database_def
        key_stored_def connection_lastrowid_def first_call_def next_rowid_def kwargs_get_def
        sqlite_integer_def)

lemma overflowing_call_rejected:
  "\<not> sqlite_integer (kwargs_get (kw_engagement_count (call_kwargs overflowing_call)) 0)"
  by (simp add: overflowing_call_def kwargs_get_def sqlite_integer_def)

text \<open>
  C1 fails as it is stated. The first save of the key (twitter, 1001) passes an
  \<open>engagement_count\<close> of \<open>2 ^ 63\<close>, which SQLite cannot bind: the gate logs the
  \<open>OverflowError\<close>, stores nothing and returns \<open>None\<close>. The second save of the same
  key is then the one that is stored, so the record of the key carries the payload of
  the second save, not of the first.
\<close>

theorem first_save_rejected_second_stored:
  "call_platform overflowing_call = call_platform second_call
   \<and> call_content_id overflowing_call = call_content_id second_call
   \<and> call_content overflowing_call = ''first text''
   \<and> do_save (init_database None) overflowing_call = (init_database None, None)
   \<and> map row_content (rows_with_key (save_all (init_database None) [overflowing_call, second_call])
                        ''twitter'' ''1001'') = [''second text'']"
proof -
  have rejected: "do_save (init_database None) overflowing_call = (init_database None, None)"
    using overflowing_call_rejected by (simp add: do_save_rejected)
  have "map row_content (rows_with_key (fst (do_save (init_database None) second_call))
                        ''twitter'' ''1001'') = [''second text'']"
    by (simp add: do_save_def save_movie_update_def insert_or_ignore_def init_database_def
          key_stored_def rows_with_key_def connection_lastrowid_def second_call_def
          next_rowid_def kwargs_get_def sqlite_integer_def)
  then show ?thesis
    using rejected by (simp add: overflowing_call_def second_call_def)
qed

text \<open>
  C1 as amended. Whatever sequence of saves is run on a new database, no two stored rows
  share (platform, content_id), so at most one row exists for a key. A save whose key is
  already stored leaves every stored row as it is and returns without an error, and the
  rows of a stored key are the same after any sequence of further saves. A save whose
  \<open>engagement_count\<close> does not fit a signed 64-bit integer stores nothing and returns
  without an error. After the first save of a key that SQLite accepts (the
  \<open>engagement_count\<close> fits and a rowid is left), whatever saves follow, the one row of
  that key carries the payload of that save.
\<close>

theorem one_record_per_key:
  "distinct (map row_key (movie_updates (save_all (init_database None) calls)))
   \<and> length (rows_with_key (save_all (init_database None) calls) p c) \<le> 1
   \<and> (key_stored db_stored (call_platform c2) (call_content_id c2)
        \<longrightarrow> movie_updates (fst (do_save db_stored c2)) = movie_updates db_stored
            \<and> snd (do_save db_stored c2) = None
            \<and> rows_with_key (save_all db_stored (c2 # cs2)) (call_platform c2) (call_content_id c2)
                = rows_with_key db_stored (call_platform c2) (call_content_id c2))
   \<and> (\<not> sqlite_integer (kwargs_get (kw_engagement_count (call_kwargs c0)) 0)
        \<longrightarrow> do_save db c0 = (db, None))
   \<and> (\<not> key_stored db_fresh (call_platform c1) (call_content_id c1)
      \<and> sqlite_integer (kwargs_get (kw_engagement_count (call_kwargs c1)) 0)
      \<and> sqlite_integer (next_rowid db_fresh)
        \<longrightarrow> (\<exists>r. rows_with_key (save_all db_fresh (c1 # cs)) (call_platform c1) (call_content_id c1) = [r]
                 \<and> same_payload r c1))"
  using save_all_distinct [OF init_distinct, of calls]
    distinct_rows_with_key [OF save_all_distinct [OF init_distinct, of calls], of p c]
    do_save_stored [of db_stored c2] do_save_snd [of db_stored c2]
    save_all_keeps_rows [of db_stored "call_platform c2" "call_content_id c2" "c2 # cs2"]
    do_save_rejected [of c0 db] first_save_wins [of db_fresh c1 cs]
  by blast

theorem one_record_per_key_witness:
  "key_stored (fst (do_save (init_database None) first_call))
      (call_platform second_call) (call_content_id second_call)
   \<and> movie_updates (fst (do_save (fst (do_save (init_database None) first_call)) second_call))
       = movie_updates (fst (do_save (init_database None) first_call))
   \<and> snd (do_save (fst (do_save (init_database None) first_call)) second_call) = None
   \<and> \<not> sqlite_integer (kwargs_get (kw_engagement_count (call_kwargs overflowing_call)) 0)
   \<and> do_save (init_database None) overflowing_call = (init_database None, None)
   \<and> \<not> key_stored (init_database None) (call_platform first_call) (call_content_id first_call)
   \<and> sqlite_integer (kwargs_get (kw_engagement_count (call_kwargs first_call)) 0)
   \<and> sqlite_integer (next_rowid (init_database None))
   \<and> (\<exists>r. rows_with_key (save_all (init_database None) [first_call, second_call])
              (call_platform first_call) (call_content_id first_call) = [r]
          \<and> same_payload r first_call)"
proof -
  have stored: "key_stored (fst (do_save (init_database None) first_call))
      (call_platform second_call) (call_content_id second_call)"
    using first_call_stored by (simp add: second_call_def)
  have fresh: "\<not> key_stored (init_database None) (call_platform first_call) (call_content_id first_call)"
    by (rule init_fresh)
  from one_record_per_key [of "[]" "[]" "[]" "fst (do_save (init_database None) first_call)"
      second_call "[]" overflowing_call "init_database None" "init_database None" first_call
      "[second_call]"]
    stored fresh first_call_accepted init_next_rowid overflowing_call_rejected
  show ?thesis by blast
qed

text \<open>
  C2, at the input where the code departs from it: the first save on a new database
  stores the row under rowid 1 and returns \<open>None\<close>, not that rowid.
\<close>

theorem save_of_new_key_returns_None:
  "\<not> key_stored (init_database None) ''twitter'' ''1001''
   \<and> map row_id (movie_updates (fst (do_save (init_database None) first_call))) = [1]
   \<and> rows_with_key (fst (do_save (init_database None) first_call)) ''twitter'' ''1001''
       = movie_updates (fst (do_save (init_database None) first_call))
   \<and> snd (do_save (init_database None) first_call) = None"
  by (simp add: do_save_def save_movie_update_def insert_or_ignore_def init_database_def
        key_stored_def rows_with_key_def connection_lastrowid_def first_call_def
        next_rowid_def kwargs_get_def sqlite_integer_def)

section \<open>The poller loops\<close>

lemma base_names_empty:
  "movie_name (extract_movie_info text) = [] \<and> actor_name (extract_movie_info text) = []"
  by (simp add: extract_movie_info_def Let_def)

lemma new_row_of_do_save:
  assumes "r \<in> set (movie_updates (fst (do_save db c)))" and "r \<notin> set (movie_updates db)"
  shows "same_payload r c"
  using do_save_rows [of db c] assms by auto

lemma init_new_row:
  assumes "sqlite_integer (kwargs_get (kw_engagement_count (call_kwargs c)) 0)"
  shows "\<exists>r. r \<in> set (movie_updates (fst (do_save (init_database None) c))) \<and>
             r \<notin> set (movie_updates (init_database None))"
proof -
  from do_save_fresh [OF init_fresh assms init_next_rowid] obtain r where
    "movie_updates (fst (do_save (init_database None) c)) = movie_updates (init_database None) @ [r]"
    by blast
  then show ?thesis by (simp add: init_database_def)
qed

lemma sqlite_integer_0: "sqlite_integer 0"
  by (simp add: sqlite_integer_def)

lemma twitter_tweet_fst:
  "fst (twitter_tweet db acc t now ts) =
     (if tweet_created_at t < now - hours 24 then db
      else fst (do_save db (twitter_call acc t (extract_movie_info (tweet_text t)) ts)))"
  by (simp add: twitter_tweet_def Let_def case_prod_beta)

lemma twitter_tweet_snd:
  "snd (twitter_tweet db acc t now ts) =
     (if tweet_created_at t < now - hours 24 then []
      else [Classify (tweet_text t), Save ''twitter'' (tweet_id t)])"
  by (simp add: twitter_tweet_def Let_def case_prod_beta do_save_snd twitter_significant_def
        truthy_def)

lemma instagram_post_fst:
  "fst (instagram_post db acc p now ts) =
     (if post_timestamp p < now - hours 24 then db
      else fst (do_save db (instagram_call acc p (extract_movie_info (kwargs_get (caption p) [])) ts)))"
  by (simp add: instagram_post_def Let_def case_prod_beta)

lemma youtube_item_fst:
  "fst (youtube_item db v ts) =
     fst (do_save db (youtube_call v
            (extract_movie_info (video_title v @ '' '' @ video_description v)) ts))"
  by (simp add: youtube_item_def Let_def case_prod_beta)

lemma news_article_fst:
  "fst (news_article db source a ts) =
     fst (do_save db (news_call source a
            (extract_movie_info (article_title a @ '' '' @ kwargs_get (article_description a) [])) ts))"
  by (simp add: news_article_def Let_def case_prod_beta)

lemma instagram_enhanced_post_fst:
  "fst (instagram_enhanced_post db acc p now ts) =
     (if post_timestamp p < now - hours 12 \<or> kwargs_get (caption p) [] = [] then db
      else fst (do_save db (instagram_enhanced_call acc p
                  (enhanced_extract_movie_info (kwargs_get (caption p) [])) ts)))"
  by (simp add: instagram_enhanced_post_def Let_def case_prod_beta)

lemma instagram_enhanced_post_snd:
  "snd (instagram_enhanced_post db acc p now ts) =
     (if post_timestamp p < now - hours 12 \<or> kwargs_get (caption p) [] = [] then []
      else [Classify (kwargs_get (caption p) []), Save ''instagram'' (post_id p)])"
  by (simp add: instagram_enhanced_post_def Let_def case_prod_beta do_save_snd
        instagram_significant_def truthy_def)

lemma youtube_enhanced_search_item_fst:
  "fst (youtube_enhanced_search_item db v ts) =
     fst (do_save db (youtube_enhanced_search_call v
            (enhanced_extract_movie_info (video_title v @ '' '' @ video_description v)) ts))"
  by (simp add: youtube_enhanced_search_item_def Let_def case_prod_beta)

lemma enhanced_language_cascade:
  "language (enhanced_extract_movie_info text) =
     first_matching_set language_priority [] (lower text)"
  by (simp add: enhanced_extract_movie_info_def enhanced_language_def language_priority_def
        Let_def)

text \<open>
  C8. The base classifier returns an empty movie name and an empty actor name for every
  text, and every row that the twitter, base instagram, base youtube and news loops add
  to the table has both columns empty.
\<close>

theorem base_classifier_names_empty:
  "movie_name (extract_movie_info text) = [] \<and> actor_name (extract_movie_info text) = []
   \<and> (\<forall>r. r \<in> set (movie_updates (fst (twitter_tweet db acc t now ts))) \<and>
           r \<notin> set (movie_updates db)
           \<longrightarrow> row_movie_name r = [] \<and> row_actor_name r = [])
   \<and> (\<forall>r. r \<in> set (movie_updates (fst (instagram_post db acc p now ts))) \<and>
           r \<notin> set (movie_updates db)
           \<longrightarrow> row_movie_name r = [] \<and> row_actor_name r = [])
   \<and> (\<forall>r. r \<in> set (movie_updates (fst (youtube_item db v ts))) \<and>
           r \<notin> set (movie_updates db)
           \<longrightarrow> row_movie_name r = [] \<and> row_actor_name r = [])
   \<and> (\<forall>r. r \<in> set (movie_updates (fst (news_article db source a ts))) \<and>
           r \<notin> set (movie_updates db)
           \<longrightarrow> row_movie_name r = [] \<and> row_actor_name r = [])"
proof -
  have tw: "row_movie_name r = [] \<and> row_actor_name r = []"
    if "r \<in> set (movie_updates (fst (twitter_tweet db acc t now ts))) \<and> r \<notin> set (movie_updates db)"
    for r
  proof -
    from that have "same_payload r (twitter_call acc t (extract_movie_info (tweet_text t)) ts)"
      by (auto simp: twitter_tweet_fst split: if_splits intro: new_row_of_do_save)
    then show ?thesis
      by (simp add: same_payload_def twitter_call_def kwargs_get_def base_names_empty)
  qed
  have ig: "row_movie_name r = [] \<and> row_actor_name r = []"
    if "r \<in> set (movie_updates (fst (instagram_post db acc p now ts))) \<and> r \<notin> set (movie_updates db)"
    for r
  proof -
    from that have "same_payload r (instagram_call acc p
        (extract_movie_info (kwargs_get (caption p) [])) ts)"
      by (auto simp: instagram_post_fst split: if_splits intro: new_row_of_do_save)
    then show ?thesis
      by (simp add: same_payload_def instagram_call_def kwargs_get_def base_names_empty)
  qed
  have yt: "row_movie_name r = [] \<and> row_actor_name r = []"
    if "r \<in> set (movie_updates (fst (youtube_item db v ts))) \<and> r \<notin> set (movie_updates db)"
    for r
  proof -
    from that have "same_payload r (youtube_call v
        (extract_movie_info (video_title v @ '' '' @ video_description v)) ts)"
      by (auto simp: youtube_item_fst intro: new_row_of_do_save)
    then show ?thesis
      by (simp add: same_payload_def youtube_call_def kwargs_get_def base_names_empty)
  qed
  have nw: "row_movie_name r = [] \<and> row_actor_name r = []"
    if "r \<in> set (movie_updates (fst (news_article db source a ts))) \<and> r \<notin> set (movie_updates db)"
    for r
  proof -
    from that have "same_payload r (news_call source a
        (extract_movie_info (article_title a @ '' '' @ kwargs_get (article_description a) [])) ts)"
      by (auto simp: news_article_fst intro: new_row_of_do_save)
    then show ?thesis
      by (simp add: same_payload_def news_call_def kwargs_get_def base_names_empty)
  qed
  from tw ig yt nw base_names_empty show ?thesis by blast
qed

theorem base_classifier_names_empty_witness:
  "(\<exists>r. r \<in> set (movie_updates (fst (twitter_tweet (init_database None) example_account
                                        trailer_tweet (hours 1) 3600))) \<and>
        r \<notin> set (movie_updates (init_database None)) \<and>
        row_movie_name r = [] \<and> row_actor_name r = [])
   \<and> (\<exists>r. r \<in> set (movie_updates (fst (instagram_post (init_database None) example_account
                                        announcement_post (hours 1) 3600))) \<and>
        r \<notin> set (movie_updates (init_database None)) \<and>
        row_movie_name r = [] \<and> row_actor_name r = [])
   \<and> (\<exists>r. r \<in> set (movie_updates (fst (youtube_item (init_database None) plain_video 3600))) \<and>
        r \<notin> set (movie_updates (init_database None)) \<and>
        row_movie_name r = [] \<and> row_actor_name r = [])
   \<and> (\<exists>r. r \<in> set (movie_updates (fst (news_article (init_database None) ''news18.com''
                                        example_article 3600))) \<and>
        r \<notin> set (movie_updates (init_database None)) \<and>
        row_movie_name r = [] \<and> row_actor_name r = [])"
proof -
  have tw: "\<exists>r. r \<in> set (movie_updates (fst (twitter_tweet (init_database None) example_account
                                        trailer_tweet (hours 1) 3600))) \<and>
        r \<notin> set (movie_updates (init_database None))"
    using init_new_row [of "twitter_call example_account trailer_tweet
        (extract_movie_info (tweet_text trailer_tweet)) 3600"] sqlite_integer_0
    by (simp add: twitter_tweet_fst twitter_call_def kwargs_get_def trailer_tweet_def hours_def)
  have ig: "\<exists>r. r \<in> set (movie_updates (fst (instagram_post (init_database None) example_account
                                        announcement_post (hours 1) 3600))) \<and>
        r \<notin> set (movie_updates (init_database None))"
    using init_new_row [of "instagram_call example_account announcement_post
        (extract_movie_info (kwargs_get (caption announcement_post) [])) 3600"] sqlite_integer_0
    by (simp add: instagram_post_fst instagram_call_def kwargs_get_def announcement_post_def
          hours_def)
  have yt: "\<exists>r. r \<in> set (movie_updates (fst (youtube_item (init_database None) plain_video 3600))) \<and>
        r \<notin> set (movie_updates (init_database None))"
    using init_new_row [of "youtube_call plain_video
        (extract_movie_info (video_title plain_video @ '' '' @ video_description plain_video))
        3600"] sqlite_integer_0
    by (simp add: youtube_item_fst youtube_call_def kwargs_get_def)
  have nw: "\<exists>r. r \<in> set (movie_updates (fst (news_article (init_database None) ''news18.com''
                                        example_article 3600))) \<and>
        r \<notin> set (movie_updates (init_database None))"
    using init_new_row [of "news_call ''news18.com'' example_article
        (extract_movie_info (article_title example_article @ '' '' @
           kwargs_get (article_description example_article) [])) 3600"] sqlite_integer_0
    by (simp add: news_article_fst news_call_def kwargs_get_def)
  from base_classifier_names_empty [of "tweet_text trailer_tweet" "init_database None"
      example_account trailer_tweet "hours 1" 3600 announcement_post plain_video
      "''news18.com''" example_article] tw ig yt nw
  show ?thesis by blast
qed

text \<open>
  C9. A tweet created more than 24 hours before the clock reading of its iteration is
  dropped: the database is unchanged and nothing is handed to the classifier, the gate
  or the notifier; a batch is handled as if such tweets were not in it. A tweet inside
  the window is handed to the classifier and then to the gate.
\<close>

theorem old_tweets_skipped:
  "(tweet_created_at t < now - hours 24 \<longrightarrow> twitter_tweet db acc t now ts = (db, []))
   \<and> twitter_tweets db acc items = twitter_tweets db acc (filter (\<lambda>x. \<not> too_old x) items)
   \<and> (\<not> tweet_created_at t < now - hours 24 \<longrightarrow>
        snd (twitter_tweet db acc t now ts)
          = [Classify (tweet_text t), Save ''twitter'' (tweet_id t)])"
proof -
  have loop: "twitter_tweets d acc items = twitter_tweets d acc (filter (\<lambda>x. \<not> too_old x) items)"
    for d
  proof (induction items arbitrary: d)
    case Nil
    show ?case by simp
  next
    case (Cons x items)
    obtain t' now' ts' where x: "x = (t', now', ts')" by (cases x)
    show ?case
    proof (cases "too_old x")
      case True
      then have "twitter_tweet d acc t' now' ts' = (d, [])"
        by (simp add: too_old_def x twitter_tweet_def)
      then show ?thesis using True Cons.IH [of d] by (simp add: x)
    next
      case False
      then show ?thesis using Cons.IH by (simp add: x)
    qed
  qed
  show ?thesis using loop [of db] by (simp add: twitter_tweet_snd) (simp add: twitter_tweet_def)
qed

theorem old_tweets_skipped_witness:
  "tweet_created_at trailer_tweet < hours 25 - hours 24
   \<and> twitter_tweet (init_database None) example_account trailer_tweet (hours 25) 90000
       = (init_database None, [])
   \<and> \<not> tweet_created_at trailer_tweet < hours 1 - hours 24
   \<and> snd (twitter_tweet (init_database None) example_account trailer_tweet (hours 1) 3600)
       = [Classify (tweet_text trailer_tweet), Save ''twitter'' (tweet_id trailer_tweet)]"
proof -
  have old: "tweet_created_at trailer_tweet < hours 25 - hours 24"
    by (simp add: trailer_tweet_def hours_def)
  have recent: "\<not> tweet_created_at trailer_tweet < hours 1 - hours 24"
    by (simp add: trailer_tweet_def hours_def)
  from old_tweets_skipped [of trailer_tweet "hours 25" "init_database None" example_account 90000 "[]"]
    old_tweets_skipped [of trailer_tweet "hours 1" "init_database None" example_account 3600 "[]"]
    old recent
  show ?thesis by blast
qed

text \<open>
  C5. The language is the label of the first keyword set, in the order telugu, tamil,
  hindi, malayalam, kannada, that has a keyword in the lowercased text, so a text with
  "telugu" and "tamil" is telugu. When no set matches the classifier leaves the language
  empty; the row stored by the enhanced instagram loop then carries the language of the
  account, and the row stored by the enhanced youtube search, which passes no fallback,
  carries the empty string.
\<close>

theorem language_cascade:
  "language (enhanced_extract_movie_info text) =
     first_matching_set language_priority [] (lower text)
   \<and> (occurs_in ''telugu'' (lower text) \<and> occurs_in ''tamil'' (lower text)
        \<longrightarrow> language (enhanced_extract_movie_info text) = ''telugu'')
   \<and> (\<forall>r. r \<in> set (movie_updates (fst (instagram_enhanced_post db acc p now ts))) \<and>
           r \<notin> set (movie_updates db)
           \<longrightarrow> row_language r =
                 (if first_matching_set language_priority [] (lower (kwargs_get (caption p) [])) = []
                  then acc_language acc
                  else first_matching_set language_priority [] (lower (kwargs_get (caption p) []))))
   \<and> (\<forall>r. r \<in> set (movie_updates (fst (youtube_enhanced_search_item db v ts))) \<and>
           r \<notin> set (movie_updates db)
           \<longrightarrow> row_language r =
                 first_matching_set language_priority []
                   (lower (video_title v @ '' '' @ video_description v)))"
proof -
  have telugu: "occurs_in ''telugu'' (lower text) \<longrightarrow>
      language (enhanced_extract_movie_info text) = ''telugu''"
    by (simp add: enhanced_extract_movie_info_def enhanced_language_def any_in_def Let_def)
  have ig: "row_language r =
      (if first_matching_set language_priority [] (lower (kwargs_get (caption p) [])) = []
       then acc_language acc
       else first_matching_set language_priority [] (lower (kwargs_get (caption p) [])))"
    if "r \<in> set (movie_updates (fst (instagram_enhanced_post db acc p now ts))) \<and>
        r \<notin> set (movie_updates db)" for r
  proof -
    from that have "same_payload r (instagram_enhanced_call acc p
        (enhanced_extract_movie_info (kwargs_get (caption p) [])) ts)"
      by (auto simp: instagram_enhanced_post_fst split: if_splits intro: new_row_of_do_save)
    then show ?thesis
      by (simp add: same_payload_def instagram_enhanced_call_def kwargs_get_def py_or_def
            enhanced_language_cascade [unfolded kwargs_get_def])
  qed
  have yt: "row_language r =
      first_matching_set language_priority [] (lower (video_title v @ '' '' @ video_description v))"
    if "r \<in> set (movie_updates (fst (youtube_enhanced_search_item db v ts))) \<and>
        r \<notin> set (movie_updates db)" for r
  proof -
    from that have "same_payload r (youtube_enhanced_search_call v
        (enhanced_extract_movie_info (video_title v @ '' '' @ video_description v)) ts)"
      by (auto simp: youtube_enhanced_search_item_fst intro: new_row_of_do_save)
    then show ?thesis
      by (simp add: same_payload_def youtube_enhanced_search_call_def kwargs_get_def
            enhanced_language_cascade)
  qed
  from telugu ig yt enhanced_language_cascade show ?thesis by blast
qed

theorem language_cascade_witness:
  "occurs_in ''telugu'' (lower ''Tamil and Telugu release'') \<and>
   occurs_in ''tamil'' (lower ''Tamil and Telugu release'') \<and>
   language (enhanced_extract_movie_info ''Tamil and Telugu release'') = ''telugu''
   \<and> (\<exists>r. r \<in> set (movie_updates (fst (instagram_enhanced_post (init_database None)
                 example_account announcement_post (hours 1) 3600))) \<and>
          r \<notin> set (movie_updates (init_database None)) \<and>
          row_language r = ''telugu'')
   \<and> (\<exists>r. r \<in> set (movie_updates (fst (youtube_enhanced_search_item (init_database None)
                 plain_video 3600))) \<and>
          r \<notin> set (movie_updates (init_database None)) \<and>
          row_language r = [])"
proof -
  have h: "occurs_in ''telugu'' (lower ''Tamil and Telugu release'') \<and>
     occurs_in ''tamil'' (lower ''Tamil and Telugu release'')"
    by code_simp
  have none1: "first_matching_set language_priority []
      (lower (kwargs_get (caption announcement_post) [])) = []"
    by code_simp
  have none2: "first_matching_set language_priority []
      (lower (video_title plain_video @ '' '' @ video_description plain_video)) = []"
    by code_simp
  have ig: "\<exists>r. r \<in> set (movie_updates (fst (instagram_enhanced_post (init_database None)
                 example_account announcement_post (hours 1) 3600))) \<and>
          r \<notin> set (movie_updates (init_database None))"
    using init_new_row [of "instagram_enhanced_call example_account announcement_post
        (enhanced_extract_movie_info (kwargs_get (caption announcement_post) [])) 3600"]
      sqlite_integer_0
    by (simp add: instagram_enhanced_post_fst instagram_enhanced_call_def announcement_post_def
          hours_def kwargs_get_def)
  have yt: "\<exists>r. r \<in> set (movie_updates (fst (youtube_enhanced_search_item (init_database None)
                 plain_video 3600))) \<and>
          r \<notin> set (movie_updates (init_database None))"
    using init_new_row [of "youtube_enhanced_search_call plain_video
        (enhanced_extract_movie_info
           (video_title plain_video @ '' '' @ video_description plain_video)) 3600"]
      sqlite_integer_0
    by (simp add: youtube_enhanced_search_item_fst youtube_enhanced_search_call_def kwargs_get_def)
  have lang: "acc_language example_account = ''telugu''" by (simp add: example_account_def)
  note main = language_cascade [of "''Tamil and Telugu release''" "init_database None"
      example_account announcement_post "hours 1" 3600 plain_video]
  from main h have a: "language (enhanced_extract_movie_info ''Tamil and Telugu release'') = ''telugu''"
    by blast
  from main have "\<forall>r. r \<in> set (movie_updates (fst (instagram_enhanced_post (init_database None)
                 example_account announcement_post (hours 1) 3600))) \<and>
          r \<notin> set (movie_updates (init_database None)) \<longrightarrow> row_language r = ''telugu''"
    by (simp only: none1 none2 lang simp_thms if_True) blast
  with ig have b: "\<exists>r. r \<in> set (movie_updates (fst (instagram_enhanced_post (init_database None)
                 example_account announcement_post (hours 1) 3600))) \<and>
          r \<notin> set (movie_updates (init_database None)) \<and> row_language r = ''telugu''"
    by blast
  from main have "\<forall>r. r \<in> set (movie_updates (fst (youtube_enhanced_search_item (init_database None)
                 plain_video 3600))) \<and>
          r \<notin> set (movie_updates (init_database None)) \<longrightarrow> row_language r = []"
    by (simp only: none1 none2 lang simp_thms if_True) blast
  with yt have c: "\<exists>r. r \<in> set (movie_updates (fst (youtube_enhanced_search_item (init_database None)
                 plain_video 3600))) \<and>
          r \<notin> set (movie_updates (init_database None)) \<and> row_language r = []"
    by blast
  from h a b c show ?thesis by blast
qed

section \<open>The notification rule\<close>

lemma trailer_tweet_type:
  "update_type (extract_movie_info (tweet_text trailer_tweet)) = ''trailer''"
  by code_simp

lemma announcement_caption_type:
  "update_type (enhanced_extract_movie_info ''Release date announcement'') = ''announcement''"
  by code_simp

lemma trailer_tweet_row:
  "\<exists>r. movie_updates (fst (twitter_tweet (init_database None) example_account trailer_tweet
             (hours 1) 3600)) = [r]
       \<and> row_platform r = ''twitter'' \<and> row_content_id r = tweet_id trailer_tweet
       \<and> row_update_type r = ''trailer'' \<and> row_engagement_count r = 0"
proof -
  have recent: "\<not> tweet_created_at trailer_tweet < hours 1 - hours 24"
    by (simp add: trailer_tweet_def hours_def)
  have accepted: "sqlite_integer (kwargs_get (kw_engagement_count (call_kwargs
      (twitter_call example_account trailer_tweet
         (extract_movie_info (tweet_text trailer_tweet)) 3600))) 0)"
    by (simp add: twitter_call_def kwargs_get_def trailer_tweet_def sqlite_integer_def)
  from do_save_fresh [OF init_fresh accepted init_next_rowid] obtain r where
    r: "movie_updates (fst (do_save (init_database None)
          (twitter_call example_account trailer_tweet
             (extract_movie_info (tweet_text trailer_tweet)) 3600)))
        = movie_updates (init_database None) @ [r]"
      "same_payload r (twitter_call example_account trailer_tweet
         (extract_movie_info (tweet_text trailer_tweet)) 3600)"
    by blast
  have rows: "movie_updates (fst (twitter_tweet (init_database None) example_account trailer_tweet
             (hours 1) 3600)) = [r]"
    using r(1) recent by (simp add: twitter_tweet_fst init_database_def)
  have key: "row_platform r = ''twitter'' \<and> row_content_id r = tweet_id trailer_tweet"
    using r(2) by (simp add: same_payload_def twitter_call_def)
  have type: "row_update_type r = ''trailer''"
    using r(2) by (simp add: same_payload_def twitter_call_def kwargs_get_def trailer_tweet_type)
  have likes: "public_metrics trailer_tweet = Some \<lparr> like_count = 0 \<rparr>"
    by (simp add: trailer_tweet_def)
  have count: "row_engagement_count r = 0"
    using r(2) by (simp add: same_payload_def twitter_call_def kwargs_get_def likes)
  from rows key type count show ?thesis by blast
qed

text \<open>
  C3, at the input where the code departs from it. On a new database a tweet inside the
  window whose update type is trailer and whose like count is 0 is stored by the gate,
  and the test of lines 476-479 holds for it for any rowid the gate could have
  returned; but the gate returns \<open>None\<close>, so the loop hands the tweet to the classifier
  and the gate and sends no notification. The same holds for every item: neither
  \<open>monitor_twitter\<close> nor \<open>monitor_instagram_enhanced\<close> ever reaches
  \<open>send_telegram_notification\<close>. The instagram test, moreover, also holds for an
  announcement with no likes.
\<close>

theorem fresh_trailer_tweet_not_notified:
  "\<not> key_stored (init_database None) ''twitter'' (tweet_id trailer_tweet)
   \<and> map row_update_type (rows_with_key
           (fst (twitter_tweet (init_database None) example_account trailer_tweet (hours 1) 3600))
           ''twitter'' (tweet_id trailer_tweet)) = [''trailer'']
   \<and> map row_engagement_count (rows_with_key
           (fst (twitter_tweet (init_database None) example_account trailer_tweet (hours 1) 3600))
           ''twitter'' (tweet_id trailer_tweet)) = [0]
   \<and> twitter_significant (Some 1) (extract_movie_info (tweet_text trailer_tweet)) trailer_tweet
   \<and> snd (twitter_tweet (init_database None) example_account trailer_tweet (hours 1) 3600)
       = [Classify (tweet_text trailer_tweet), Save ''twitter'' (tweet_id trailer_tweet)]
   \<and> filter is_telegram (snd (twitter_tweet db acc t now ts)) = []
   \<and> filter is_telegram (snd (instagram_enhanced_post db acc p now ts)) = []
   \<and> update_type (enhanced_extract_movie_info ''Release date announcement'') = ''announcement''
   \<and> caption announcement_post = Some ''Release date announcement''
   \<and> kwargs_get (post_like_count announcement_post) 0 = 0
   \<and> instagram_significant (Some 1)
        (enhanced_extract_movie_info ''Release date announcement'') announcement_post"
proof -
  from trailer_tweet_row obtain r where
    r: "movie_updates (fst (twitter_tweet (init_database None) example_account trailer_tweet
             (hours 1) 3600)) = [r]"
      "row_platform r = ''twitter''" "row_content_id r = tweet_id trailer_tweet"
      "row_update_type r = ''trailer''" "row_engagement_count r = 0"
    by blast
  have rows: "rows_with_key
        (fst (twitter_tweet (init_database None) example_account trailer_tweet (hours 1) 3600))
        ''twitter'' (tweet_id trailer_tweet) = [r]"
    using r(1,2,3) by (simp add: rows_with_key_def)
  have sig: "twitter_significant (Some 1) (extract_movie_info (tweet_text trailer_tweet))
      trailer_tweet"
    by (simp add: twitter_significant_def truthy_def trailer_tweet_type)
  have recent: "\<not> tweet_created_at trailer_tweet < hours 1 - hours 24"
    by (simp add: trailer_tweet_def hours_def)
  have events: "snd (twitter_tweet (init_database None) example_account trailer_tweet
      (hours 1) 3600)
       = [Classify (tweet_text trailer_tweet), Save ''twitter'' (tweet_id trailer_tweet)]"
    using recent by (simp add: twitter_tweet_snd)
  have tw: "filter is_telegram (snd (twitter_tweet db acc t now ts)) = []"
    by (simp add: twitter_tweet_snd is_telegram_def)
  have ig: "filter is_telegram (snd (instagram_enhanced_post db acc p now ts)) = []"
    by (simp add: instagram_enhanced_post_snd is_telegram_def)
  have cap: "caption announcement_post = Some ''Release date announcement''
      \<and> kwargs_get (post_like_count announcement_post) 0 = 0"
    by (simp add: announcement_post_def kwargs_get_def)
  have isig: "instagram_significant (Some 1)
        (enhanced_extract_movie_info ''Release date announcement'') announcement_post"
    by (simp add: instagram_significant_def truthy_def announcement_caption_type)
  show ?thesis
    using init_fresh [of "''twitter''" "tweet_id trailer_tweet"] rows r(4,5) sig events tw ig
      announcement_caption_type cap isig
    by simp
qed

section \<open>The read accessor\<close>












end
